theory Spec2Isabelle
  imports Main "HOL-Library.Word" "HOL-Library.Monad_Syntax"
begin

section \<open>FProgressbar: the stored percentage\<close>

text \<open>
  \<^verbatim>\<open>std::size_t\<close> is a 64-bit unsigned word. The sentinel \<^verbatim>\<open>NOT_SET\<close> is
  declared in \<^verbatim>\<open>final/fprogressbar.h\<close> as \<^verbatim>\<open>static_cast<std::size_t>(-1)\<close>.
\<close>

type_synonym size_t = "64 word"

definition NOT_SET :: size_t where
  "NOT_SET = - 1"

text \<open>
  What the progress bar writes to the terminal is kept as a list of drawing requests;
  the glyphs chosen by \<^verbatim>\<open>drawPercentage\<close> and \<^verbatim>\<open>drawBar\<close> are not modelled.
\<close>

datatype draw_op = DrawPercentage size_t | DrawBar size_t | UpdateTerminal

record fprogressbar =
  percentage :: size_t
  bar_length :: size_t
  pb_shown :: bool
  pb_output :: "draw_op list"

definition pb_refresh :: "fprogressbar \<Rightarrow> fprogressbar" where
  "pb_refresh pb =
     (let pb1 = (if pb_shown pb
                 then pb\<lparr>pb_output := pb_output pb
                          @ [DrawPercentage (percentage pb), DrawBar (percentage pb)]\<rparr>
                 else pb)
      in pb1\<lparr>pb_output := pb_output pb1 @ [UpdateTerminal]\<rparr>)"

definition setPercentage :: "size_t \<Rightarrow> fprogressbar \<Rightarrow> fprogressbar" where
  "setPercentage percentage_value pb =
     (if percentage_value = NOT_SET then pb_refresh (pb\<lparr>percentage := NOT_SET\<rparr>)
      else if percentage_value > 100 then pb_refresh (pb\<lparr>percentage := 100\<rparr>)
      else if percentage_value \<le> percentage pb \<and> percentage pb \<noteq> NOT_SET then pb
      else pb_refresh (pb\<lparr>percentage := percentage_value\<rparr>))"

definition reset :: "fprogressbar \<Rightarrow> fprogressbar" where
  "reset pb = pb_refresh (pb\<lparr>percentage := NOT_SET\<rparr>)"

text \<open>
  The values the member \<^verbatim>\<open>percentage\<close> can hold: it starts as \<^verbatim>\<open>NOT_SET\<close> and is
  written by \<^verbatim>\<open>setPercentage\<close> and \<^verbatim>\<open>reset\<close> only.
\<close>

definition pct_valid :: "size_t \<Rightarrow> bool" where
  "pct_valid p = (p = NOT_SET \<or> p \<le> 100)"

text \<open>
  The progress order on stored percentages: the sentinel (not set) is below every set
  value, set values are compared as numbers.
\<close>

definition pct_le :: "size_t \<Rightarrow> size_t \<Rightarrow> bool" where
  "pct_le p q = (p = NOT_SET \<or> (q \<noteq> NOT_SET \<and> p \<le> q))"

definition pb40 :: fprogressbar where
  "pb40 = \<lparr>percentage = 40, bar_length = 20, pb_shown = True, pb_output = []\<rparr>"

section \<open>The callback registry\<close>

text \<open>
  A handler is identified by its address, a payload by its pointer value, a widget by its
  identity. Calling a handler is recorded in a call log; the handlers are taken not to
  change the two registries while \<^verbatim>\<open>emitCallback\<close> walks them.
\<close>

type_synonym widget_id = nat
type_synonym FCallback = nat
type_synonym FMemberCallback = nat
type_synonym FDataPtr = nat

record callback_data =
  cb_signal :: string
  cb_handler :: FCallback
  data :: FDataPtr

record member_callback_data =
  mcb_signal :: string
  mcb_instance :: widget_id
  mcb_handler :: FMemberCallback
  mcb_data :: FDataPtr

record callback_registry =
  callback_objects :: "callback_data list"
  member_callback_objects :: "member_callback_data list"

datatype call =
    FreeCall FCallback widget_id FDataPtr
  | MemberCall widget_id FMemberCallback widget_id FDataPtr

definition addCallback ::
  "string \<Rightarrow> FCallback \<Rightarrow> FDataPtr \<Rightarrow> callback_registry \<Rightarrow> callback_registry" where
  "addCallback sig h d r =
     r\<lparr>callback_objects := callback_objects r
          @ [\<lparr>cb_signal = sig, cb_handler = h, data = d\<rparr>]\<rparr>"

definition addMemberCallback ::
  "string \<Rightarrow> widget_id \<Rightarrow> FMemberCallback \<Rightarrow> FDataPtr \<Rightarrow> callback_registry
     \<Rightarrow> callback_registry" where
  "addMemberCallback sig inst h d r =
     r\<lparr>member_callback_objects := member_callback_objects r
          @ [\<lparr>mcb_signal = sig, mcb_instance = inst, mcb_handler = h, mcb_data = d\<rparr>]\<rparr>"

text \<open>The two \<^verbatim>\<open>while\<close> loops of \<^verbatim>\<open>emitCallback\<close>, from \<^verbatim>\<open>begin()\<close> to \<^verbatim>\<open>end()\<close>.\<close>

fun emit_member_loop ::
  "widget_id \<Rightarrow> string \<Rightarrow> member_callback_data list \<Rightarrow> call list \<Rightarrow> call list" where
  "emit_member_loop this emit_signal [] log = log"
| "emit_member_loop this emit_signal (m # ms) log =
     emit_member_loop this emit_signal ms
       (if mcb_signal m = emit_signal
        then log @ [MemberCall (mcb_instance m) (mcb_handler m) this (mcb_data m)]
        else log)"

fun emit_free_loop ::
  "widget_id \<Rightarrow> string \<Rightarrow> callback_data list \<Rightarrow> call list \<Rightarrow> call list" where
  "emit_free_loop this emit_signal [] log = log"
| "emit_free_loop this emit_signal (c # cs) log =
     emit_free_loop this emit_signal cs
       (if cb_signal c = emit_signal
        then log @ [FreeCall (cb_handler c) this (data c)]
        else log)"

definition emitCallback ::
  "widget_id \<Rightarrow> callback_registry \<Rightarrow> string \<Rightarrow> call list \<Rightarrow> call list" where
  "emitCallback this r emit_signal log =
     (let log1 = (if member_callback_objects r \<noteq> []
                  then emit_member_loop this emit_signal (member_callback_objects r) log
                  else log)
      in if callback_objects r \<noteq> []
         then emit_free_loop this emit_signal (callback_objects r) log1
         else log1)"

text \<open>The calls a registry owes to a signal, each registry in registration order.\<close>

definition member_calls :: "widget_id \<Rightarrow> callback_registry \<Rightarrow> string \<Rightarrow> call list" where
  "member_calls this r s =
     map (\<lambda>m. MemberCall (mcb_instance m) (mcb_handler m) this (mcb_data m))
       (filter (\<lambda>m. mcb_signal m = s) (member_callback_objects r))"

definition free_calls :: "widget_id \<Rightarrow> callback_registry \<Rightarrow> string \<Rightarrow> call list" where
  "free_calls this r s =
     map (\<lambda>c. FreeCall (cb_handler c) this (data c))
       (filter (\<lambda>c. cb_signal c = s) (callback_objects r))"

text \<open>The order the specification asks for: every free-standing call, then every
  instance-bound call.\<close>

definition spec_emit_order :: "widget_id \<Rightarrow> callback_registry \<Rightarrow> string \<Rightarrow> call list" where
  "spec_emit_order this r s = free_calls this r s @ member_calls this r s"

definition clicked_registry :: callback_registry where
  "clicked_registry =
     addMemberCallback ''clicked'' 7 30 0
       (addCallback ''clicked'' 20 0
         (addCallback ''clicked'' 10 0
           \<lparr>callback_objects = [], member_callback_objects = []\<rparr>))"

section \<open>Focus: setFocus and changeFocus\<close>

text \<open>
  The members of the \<^verbatim>\<open>flags\<close> bit field that \<^verbatim>\<open>setEnable\<close> and \<^verbatim>\<open>setFocus\<close> read and
  write. A widget pointer is a \<^typ>\<open>widget_id\<close>; every identifier names a widget object,
  so the store of flags is a total function.
\<close>

record widget_flags =
  flag_active :: bool
  flag_focus :: bool
  flag_visible :: bool
  flag_shown :: bool

text \<open>
  The process-wide state: every widget's flags, the global focus pointer
  (\<^verbatim>\<open>getFocusWidget\<close>, \<^verbatim>\<open>setFocusWidget\<close>) and, as \<^verbatim>\<open>ext\<close>, the state owned by the
  window manager and the terminal.
\<close>

record 'x application =
  flags :: "widget_id \<Rightarrow> widget_flags"
  focus_widget :: "widget_id option"
  ext :: 'x

datatype event_type = FocusOut_Event | ChildFocusOut_Event | ChildFocusIn_Event | FocusIn_Event

datatype FocusTypes = FocusNextWidget | FocusPreviousWidget | FocusDefiniteWidget

text \<open>A focus event is created accepted; \<^verbatim>\<open>ignore()\<close> and \<^verbatim>\<open>accept()\<close> write \<^verbatim>\<open>accpt\<close>.\<close>

record FFocusEvent =
  ev_type :: event_type
  focus_type :: FocusTypes
  accpt :: bool

text \<open>
  Modelled from the spec: \<^verbatim>\<open>FWindow\<close>, \<^verbatim>\<open>FApplication::sendEvent\<close> and the terminal
  output are not in the source tree. They are taken as parameters. The window manager and
  the terminal act on their own state \<^verbatim>\<open>ext\<close>; an event handler is user code and may change
  the whole application state and the event's accepted flag.
\<close>

record 'x collaborators =
  getWindowWidget :: "widget_id \<Rightarrow> widget_id option"
  isWindowActive :: "widget_id \<Rightarrow> 'x \<Rightarrow> bool"
  raiseWindow :: "widget_id \<Rightarrow> 'x \<Rightarrow> bool \<times> 'x"
  setActiveWindow :: "widget_id \<Rightarrow> 'x \<Rightarrow> 'x"
  setWindowFocusWidget :: "widget_id \<Rightarrow> widget_id \<Rightarrow> 'x \<Rightarrow> 'x"
  redraw :: "widget_id \<Rightarrow> 'x \<Rightarrow> 'x"
  updateTerminal :: "'x \<Rightarrow> 'x"
  flush_out :: "'x \<Rightarrow> 'x"
  sendEvent :: "widget_id \<Rightarrow> FFocusEvent \<Rightarrow> 'x application \<Rightarrow> FFocusEvent \<times> 'x application"

definition isEnabled :: "'x application \<Rightarrow> widget_id \<Rightarrow> bool" where
  "isEnabled s w = flag_active (flags s w)"

definition hasFocus :: "'x application \<Rightarrow> widget_id \<Rightarrow> bool" where
  "hasFocus s w = flag_focus (flags s w)"


text \<open>The branch of \<^verbatim>\<open>setFocus\<close> under \<^verbatim>\<open>if ( enable && window )\<close>.\<close>

definition window_focus ::
  "'x collaborators \<Rightarrow> widget_id \<Rightarrow> widget_id \<Rightarrow> 'x application \<Rightarrow> 'x application" where
  "window_focus env this window s =
     (let x1 = (if \<not> isWindowActive env window (ext s)
                then (let (has_raised, xr) = raiseWindow env window (ext s);
                          xa = setActiveWindow env window xr
                      in if has_raised \<and> flag_visible (flags s window) \<and> flag_shown (flags s window)
                         then redraw env window xa else xa)
                else ext s)
      in s\<lparr>ext := setWindowFocusWidget env window this x1\<rparr>)"

text \<open>
  \<^verbatim>\<open>last_focus->unsetFocus()\<close> is \<^verbatim>\<open>last_focus->setFocus(false)\<close>: the one recursive call,
  made only when \<^verbatim>\<open>enable\<close> is true.
\<close>

function setFocus ::
  "'x collaborators \<Rightarrow> widget_id \<Rightarrow> bool \<Rightarrow> 'x application \<Rightarrow> bool \<times> 'x application" where
  "setFocus env this enable s =
     (if \<not> isEnabled s this then (False, s)
      else if flag_focus (flags s this) = enable then (True, s)
      else
        (let last_focus = focus_widget s;
             s1 = (if enable \<and> \<not> flag_focus (flags s this)
                   then (let s0 = (case last_focus of
                                     None \<Rightarrow> s
                                   | Some l \<Rightarrow> snd (setFocus env l False s))
                         in s0\<lparr>focus_widget := Some this\<rparr>)
                   else s);
             s2 = (case getWindowWidget env this of
                     Some window \<Rightarrow> if enable then window_focus env this window s1 else s1
                   | None \<Rightarrow> s1)
         in (enable, s2\<lparr>flags := (flags s2)(this := (flags s2 this)\<lparr>flag_focus := enable\<rparr>)\<rparr>)))"
  by pat_completeness auto
termination
  by (relation "measure (\<lambda>(env, this, enable, s). if enable then 1 else 0)") auto

definition changeFocus ::
  "'x collaborators \<Rightarrow> widget_id \<Rightarrow> widget_id \<Rightarrow> widget_id \<Rightarrow> FocusTypes
     \<Rightarrow> 'x application \<Rightarrow> bool \<times> 'x application" where
  "changeFocus env this follower parent ft s =
     (let (out, s1) = sendEvent env this
                        \<lparr>ev_type = FocusOut_Event, focus_type = ft, accpt = True\<rparr> s;
          (cfo, s2) = sendEvent env parent
                        \<lparr>ev_type = ChildFocusOut_Event, focus_type = ft, accpt = False\<rparr> s1;
          out1 = (if accpt cfo then out\<lparr>accpt := False\<rparr> else out)
      in if accpt out1
         then (if follower = this then (False, s2)
               else (let s3 = snd (setFocus env follower True s2);
                         (cfi, s4) = sendEvent env parent
                            \<lparr>ev_type = ChildFocusIn_Event, focus_type = FocusDefiniteWidget,
                             accpt = True\<rparr> s3;
                         (inn, s5) = sendEvent env follower
                            \<lparr>ev_type = FocusIn_Event, focus_type = ft, accpt = True\<rparr> s4
                     in if accpt inn
                        then (True, s5\<lparr>ext := flush_out env (updateTerminal env
                                (redraw env follower (redraw env this (ext s5))))\<rparr>)
                        else (True, s5)))
         else (True, s2))"




text \<open>
  Two concrete sets of collaborators: widgets outside any window with handlers that leave
  every event as it is, and the same with a parent that accepts each child-focus-out event.
\<close>

definition plain_env :: "unit collaborators" where
  "plain_env =
     \<lparr>getWindowWidget = (\<lambda>w. None),
      isWindowActive = (\<lambda>w x. True),
      raiseWindow = (\<lambda>w x. (False, x)),
      setActiveWindow = (\<lambda>w x. x),
      setWindowFocusWidget = (\<lambda>w f x. x),
      redraw = (\<lambda>w x. x),
      updateTerminal = (\<lambda>x. x),
      flush_out = (\<lambda>x. x),
      sendEvent = (\<lambda>w ev s. (ev, s))\<rparr>"

definition veto_env :: "unit collaborators" where
  "veto_env =
     plain_env\<lparr>sendEvent :=
       (\<lambda>w ev s. if ev_type ev = ChildFocusOut_Event then (ev\<lparr>accpt := True\<rparr>, s)
                  else (ev, s))\<rparr>"

text \<open>An application with every widget enabled and none focused, and the same after
  widget 0 has taken the focus.\<close>

definition app0 :: "unit application" where
  "app0 =
     \<lparr>flags = (\<lambda>w. \<lparr>flag_active = True, flag_focus = False, flag_visible = True,
                       flag_shown = True\<rparr>),
      focus_widget = None,
      ext = ()\<rparr>"

definition app_focus0 :: "unit application" where
  "app_focus0 = snd (setFocus plain_env 0 True app0)"

section \<open>Geometry: rectangles\<close>

text \<open>
  Modelled from the spec: the class \<^verbatim>\<open>FRect\<close> (\<^verbatim>\<open>final/frect.h\<close>) is not in the source
  tree. A rectangle is stored by its two corners, as the calls \<^verbatim>\<open>getX1\<close>, \<^verbatim>\<open>getX2\<close>,
  \<^verbatim>\<open>x1_ref\<close>, \<^verbatim>\<open>x2_ref\<close> and \<^verbatim>\<open>setCoordinates (x1, y1, x2, y2)\<close> of the widget code show;
  its width is \<open>X2 - X1 + 1\<close>, never negative as a \<^verbatim>\<open>std::size_t\<close>; moving it keeps its
  size, and setting its width or height moves the second corner.

  Positions are unbounded integers and sizes natural numbers: the arithmetic of the widget
  code is modelled without overflow of \<^verbatim>\<open>int\<close> and \<^verbatim>\<open>std::size_t\<close>.
\<close>

record FRect =
  X1 :: int
  Y1 :: int
  X2 :: int
  Y2 :: int

definition rect_getWidth :: "FRect \<Rightarrow> nat" where
  "rect_getWidth r = (let w = X2 r - X1 r + 1 in if w < 0 then 0 else nat w)"

definition rect_getHeight :: "FRect \<Rightarrow> nat" where
  "rect_getHeight r = (let h = Y2 r - Y1 r + 1 in if h < 0 then 0 else nat h)"

definition rect_setX :: "int \<Rightarrow> FRect \<Rightarrow> FRect" where
  "rect_setX n r = (let dX = X2 r - X1 r in r\<lparr>X1 := n, X2 := n + dX\<rparr>)"

definition rect_setY :: "int \<Rightarrow> FRect \<Rightarrow> FRect" where
  "rect_setY n r = (let dY = Y2 r - Y1 r in r\<lparr>Y1 := n, Y2 := n + dY\<rparr>)"

definition rect_setPos :: "int \<times> int \<Rightarrow> FRect \<Rightarrow> FRect" where
  "rect_setPos p r =
     (let dX = X2 r - X1 r; dY = Y2 r - Y1 r
      in r\<lparr>X1 := fst p, Y1 := snd p, X2 := fst p + dX, Y2 := snd p + dY\<rparr>)"

definition rect_setWidth :: "nat \<Rightarrow> FRect \<Rightarrow> FRect" where
  "rect_setWidth w r = r\<lparr>X2 := X1 r + int w - 1\<rparr>"

definition rect_setHeight :: "nat \<Rightarrow> FRect \<Rightarrow> FRect" where
  "rect_setHeight h r = r\<lparr>Y2 := Y1 r + int h - 1\<rparr>"

definition setCoordinates :: "int \<Rightarrow> int \<Rightarrow> int \<Rightarrow> int \<Rightarrow> FRect" where
  "setCoordinates x1 y1 x2 y2 = \<lparr>X1 = x1, Y1 = y1, X2 = x2, Y2 = y2\<rparr>"

text \<open>\<^verbatim>\<open>std::vector<bool>::resize (n, v)\<close>: cut to \<open>n\<close> cells, or filled up with \<open>v\<close>.\<close>

definition vec_resize :: "nat \<Rightarrow> bool \<Rightarrow> bool list \<Rightarrow> bool list" where
  "vec_resize n v xs = take n xs @ replicate (n - length xs) v"

section \<open>Geometry: the widget\<close>

record widget_padding =
  pad_top :: int
  pad_left :: int
  pad_bottom :: int
  pad_right :: int

record widget_size_hints =
  min_width :: nat
  min_height :: nat
  max_width :: nat
  max_height :: nat

record dbl_line_mask =
  mask_top :: "bool list"
  mask_right :: "bool list"
  mask_bottom :: "bool list"
  mask_left :: "bool list"

text \<open>
  The geometry members of an \<^verbatim>\<open>FWidget\<close>. \<^verbatim>\<open>window_widget\<close>, \<^verbatim>\<open>dialog_widget\<close> and
  \<^verbatim>\<open>child_print_area\<close> are what \<^verbatim>\<open>isWindowWidget()\<close>, \<^verbatim>\<open>isDialogWidget()\<close> and
  \<^verbatim>\<open>hasChildPrintArea()\<close> return.
\<close>

record fwidget =
  wsize :: FRect
  adjust_wsize :: FRect
  offset :: FRect
  client_offset :: FRect
  padding :: widget_padding
  size_hints :: widget_size_hints
  double_flatline_mask :: dbl_line_mask
  ignore_padding :: bool
  window_widget :: bool
  dialog_widget :: bool
  child_print_area :: bool

text \<open>A widget owns its child widgets; child objects that are not widgets have no geometry
  and are left out.\<close>

datatype widget_tree = Widget (node: fwidget) (children: "widget_tree list")

text \<open>
  What a widget sees of the tree above it: whether it is the root (\<^verbatim>\<open>isRootWidget()\<close>, it
  has no parent), its parent widget if the parent is a widget (\<^verbatim>\<open>getParentWidget()\<close>), the
  widget \<^verbatim>\<open>getRootWidget()\<close> returns and the global \<^verbatim>\<open>rootObject\<close>.
\<close>

record layout_ctx =
  is_root :: bool
  parent_widget :: "fwidget option"
  root_widget :: fwidget
  root_object :: fwidget

text \<open>Modelled from the spec: the inline getters of \<^verbatim>\<open>final/fwidget.h\<close>, which is not in
  the source tree; they read the adjusted rectangle and the offset.\<close>

definition getX :: "fwidget \<Rightarrow> int" where
  "getX w = X1 (adjust_wsize w)"

definition getY :: "fwidget \<Rightarrow> int" where
  "getY w = Y1 (adjust_wsize w)"

definition getPos :: "fwidget \<Rightarrow> int \<times> int" where
  "getPos w = (X1 (adjust_wsize w), Y1 (adjust_wsize w))"

definition getWidth :: "fwidget \<Rightarrow> nat" where
  "getWidth w = rect_getWidth (adjust_wsize w)"

definition getHeight :: "fwidget \<Rightarrow> nat" where
  "getHeight w = rect_getHeight (adjust_wsize w)"

definition getTermX :: "fwidget \<Rightarrow> int" where
  "getTermX w = X1 (offset w) + X1 (adjust_wsize w)"

definition getTermY :: "fwidget \<Rightarrow> int" where
  "getTermY w = Y1 (offset w) + Y1 (adjust_wsize w)"

subsection \<open>insufficientSpaceAdjust\<close>

text \<open>The four \<^verbatim>\<open>while\<close> loops. A loop that does not end has no result.\<close>

partial_function (option) move_left_loop :: "fwidget \<Rightarrow> fwidget option" where
  "move_left_loop w =
     (if getTermX w + int (getWidth w) - pad_right (padding w) > X2 (offset w) + 2
      then move_left_loop
             (let r = adjust_wsize w;
                  r1 = r\<lparr>X1 := X1 r - 1, X2 := X2 r - 1\<rparr>;
                  r2 = (if X1 r1 < 1 then r1\<lparr>X1 := 1\<rparr> else r1)
              in w\<lparr>adjust_wsize := r2\<rparr>)
      else Some w)"

partial_function (option) move_up_loop :: "fwidget \<Rightarrow> fwidget option" where
  "move_up_loop w =
     (if getTermY w + int (getHeight w) - pad_bottom (padding w) > Y2 (offset w) + 2
      then move_up_loop
             (let r = adjust_wsize w;
                  r1 = r\<lparr>Y1 := Y1 r - 1, Y2 := Y2 r - 1\<rparr>;
                  r2 = (if Y1 r1 < 1 then r1\<lparr>Y1 := 1\<rparr> else r1)
              in w\<lparr>adjust_wsize := r2\<rparr>)
      else Some w)"

partial_function (option) reduce_width_loop :: "fwidget \<Rightarrow> fwidget option" where
  "reduce_width_loop w =
     (if X1 (offset w) + int (getWidth w) - 1 > X2 (offset w)
      then reduce_width_loop (w\<lparr>adjust_wsize := (adjust_wsize w)\<lparr>X2 := X2 (adjust_wsize w) - 1\<rparr>\<rparr>)
      else Some w)"

partial_function (option) reduce_height_loop :: "fwidget \<Rightarrow> fwidget option" where
  "reduce_height_loop w =
     (if Y1 (offset w) + int (getHeight w) - 1 > Y2 (offset w)
      then reduce_height_loop (w\<lparr>adjust_wsize := (adjust_wsize w)\<lparr>Y2 := Y2 (adjust_wsize w) - 1\<rparr>\<rparr>)
      else Some w)"

text \<open>The two tests that follow the width loop.\<close>

definition keep_min_width :: "fwidget \<Rightarrow> fwidget" where
  "keep_min_width w =
     (let w1 = (if getWidth w < min_width (size_hints w)
                then w\<lparr>adjust_wsize :=
                       rect_setWidth (min_width (size_hints w)) (adjust_wsize w)\<rparr>
                else w)
      in if getWidth w1 = 0
         then w1\<lparr>adjust_wsize := rect_setWidth 1 (adjust_wsize w1)\<rparr>
         else w1)"

text \<open>The two tests that follow the height loop. The first one calls
  \<^verbatim>\<open>adjust_wsize.setWidth(size_hints.min_height)\<close>, as the source does.\<close>

definition keep_min_height :: "fwidget \<Rightarrow> fwidget" where
  "keep_min_height w =
     (let w1 = (if getHeight w < min_height (size_hints w)
                then w\<lparr>adjust_wsize :=
                       rect_setWidth (min_height (size_hints w)) (adjust_wsize w)\<rparr>
                else w)
      in if getHeight w1 = 0
         then w1\<lparr>adjust_wsize := rect_setHeight 1 (adjust_wsize w1)\<rparr>
         else w1)"

definition insufficientSpaceAdjust :: "fwidget \<Rightarrow> fwidget option" where
  "insufficientSpaceAdjust w =
     (if window_widget w then Some w
      else do {
        w1 \<leftarrow> move_left_loop w;
        w2 \<leftarrow> move_up_loop w1;
        w3 \<leftarrow> reduce_width_loop w2;
        w4 \<leftarrow> reduce_height_loop (keep_min_width w3);
        Some (keep_min_height w4)
      })"

subsection \<open>adjustSize\<close>

definition setTermOffset :: "layout_ctx \<Rightarrow> fwidget \<Rightarrow> fwidget" where
  "setTermOffset ctx w =
     (let r = root_widget ctx; w' = int (getWidth r); h = int (getHeight r)
      in w\<lparr>offset := setCoordinates 0 0 (w' - 1) (h - 1)\<rparr>)"

text \<open>The first block of \<^verbatim>\<open>adjustSize\<close>: the offset of a widget that is not the root, and
  the adjusted rectangle reset to the requested one.\<close>

definition adjust_offset :: "layout_ctx \<Rightarrow> fwidget \<Rightarrow> fwidget" where
  "adjust_offset ctx w =
     (if \<not> is_root ctx
      then (let w1 =
                 (if window_widget w
                  then (if ignore_padding w \<and> \<not> dialog_widget w
                        then setTermOffset ctx w
                        else w\<lparr>offset := client_offset (root_object ctx)\<rparr>)
                  else (case parent_widget ctx of
                          Some p \<Rightarrow>
                            if ignore_padding w
                            then w\<lparr>offset := setCoordinates
                                     (getTermX p - 1)
                                     (getTermY p - 1)
                                     (getTermX p + int (getWidth p) - 2)
                                     (getTermY p + int (getHeight p) - 2)\<rparr>
                            else w\<lparr>offset := client_offset p\<rparr>
                        | None \<Rightarrow> w))
            in w1\<lparr>adjust_wsize := wsize w1\<rparr>)
      else w)"

definition set_client_offset :: "fwidget \<Rightarrow> fwidget" where
  "set_client_offset w =
     w\<lparr>client_offset := setCoordinates
          (getTermX w - 1 + pad_left (padding w))
          (getTermY w - 1 + pad_top (padding w))
          (getTermX w - 2 + int (getWidth w) - pad_right (padding w))
          (getTermY w - 2 + int (getHeight w) - pad_bottom (padding w))\<rparr>"

text \<open>The context of the children of a widget: the widget is their parent.\<close>

definition child_ctx :: "layout_ctx \<Rightarrow> fwidget \<Rightarrow> layout_ctx" where
  "child_ctx ctx w =
     \<lparr>is_root = False,
      parent_widget = Some w,
      root_widget = (if is_root ctx then w else root_widget ctx),
      root_object = (if is_root ctx then w else root_object ctx)\<rparr>"

fun adjustSize :: "layout_ctx \<Rightarrow> widget_tree \<Rightarrow> widget_tree option"
  and adjustChildren :: "layout_ctx \<Rightarrow> widget_tree list \<Rightarrow> widget_tree list option" where
  "adjustSize ctx (Widget w cs) =
     (let w1 = adjust_offset ctx w
      in case (if \<not> child_print_area w1 then insufficientSpaceAdjust w1 else Some w1) of
           None \<Rightarrow> None
         | Some w2 \<Rightarrow>
             (let w3 = set_client_offset w2
              in case adjustChildren (child_ctx ctx w3) cs of
                   None \<Rightarrow> None
                 | Some cs' \<Rightarrow> Some (Widget w3 cs')))"
| "adjustChildren ctx [] = Some []"
| "adjustChildren ctx (c # cs) =
     (case (if \<not> window_widget (node c) then adjustSize ctx c else Some c) of
        None \<Rightarrow> None
      | Some c' \<Rightarrow>
          (case adjustChildren ctx cs of
             None \<Rightarrow> None
           | Some cs' \<Rightarrow> Some (c' # cs')))"

subsection \<open>The geometry setters\<close>

definition resize_masks_width :: "fwidget \<Rightarrow> fwidget" where
  "resize_masks_width w =
     w\<lparr>double_flatline_mask := (double_flatline_mask w)
          \<lparr>mask_top := vec_resize (getWidth w) False (mask_top (double_flatline_mask w)),
           mask_bottom := vec_resize (getWidth w) False (mask_bottom (double_flatline_mask w))\<rparr>\<rparr>"

definition resize_masks_height :: "fwidget \<Rightarrow> fwidget" where
  "resize_masks_height w =
     w\<lparr>double_flatline_mask := (double_flatline_mask w)
          \<lparr>mask_right := vec_resize (getHeight w) False (mask_right (double_flatline_mask w)),
           mask_left := vec_resize (getHeight w) False (mask_left (double_flatline_mask w))\<rparr>\<rparr>"

definition resize_masks :: "fwidget \<Rightarrow> fwidget" where
  "resize_masks w =
     w\<lparr>double_flatline_mask :=
          \<lparr>mask_top = vec_resize (getWidth w) False (mask_top (double_flatline_mask w)),
           mask_right = vec_resize (getHeight w) False (mask_right (double_flatline_mask w)),
           mask_bottom = vec_resize (getWidth w) False (mask_bottom (double_flatline_mask w)),
           mask_left = vec_resize (getHeight w) False (mask_left (double_flatline_mask w))\<rparr>\<rparr>"

text \<open>
  Each setter has three parts: the test that returns at once, the statements that clamp
  and store the new values (the functions \<open>store_\<dots>\<close> below), and the call of
  \<^verbatim>\<open>adjustSize\<close> under \<^verbatim>\<open>if ( adjust )\<close>, followed in the size setters by the resizing of
  the masks.
\<close>

definition store_x :: "int \<Rightarrow> fwidget \<Rightarrow> fwidget" where
  "store_x x w =
     (let x1 = (if \<not> window_widget w \<and> x < 1 then 1 else x)
      in w\<lparr>wsize := rect_setX x1 (wsize w), adjust_wsize := rect_setX x1 (adjust_wsize w)\<rparr>)"

definition setX :: "layout_ctx \<Rightarrow> int \<Rightarrow> bool \<Rightarrow> widget_tree \<Rightarrow> widget_tree option" where
  "setX ctx x adjust t =
     (let w = node t
      in if getX w = x \<and> X1 (wsize w) = x then Some t
         else if adjust then adjustSize ctx (Widget (store_x x w) (children t))
         else Some (Widget (store_x x w) (children t)))"

definition store_y :: "int \<Rightarrow> fwidget \<Rightarrow> fwidget" where
  "store_y y w =
     (let y1 = (if \<not> window_widget w \<and> y < 1 then 1 else y)
      in w\<lparr>wsize := rect_setY y1 (wsize w), adjust_wsize := rect_setY y1 (adjust_wsize w)\<rparr>)"

definition setY :: "layout_ctx \<Rightarrow> int \<Rightarrow> bool \<Rightarrow> widget_tree \<Rightarrow> widget_tree option" where
  "setY ctx y adjust t =
     (let w = node t
      in if getY w = y \<and> Y1 (wsize w) = y then Some t
         else if adjust then adjustSize ctx (Widget (store_y y w) (children t))
         else Some (Widget (store_y y w) (children t)))"

definition store_pos :: "int \<times> int \<Rightarrow> fwidget \<Rightarrow> fwidget" where
  "store_pos p w =
     (let pos = (if \<not> window_widget w
                 then (if fst p < 1 then 1 else fst p, if snd p < 1 then 1 else snd p)
                 else p)
      in w\<lparr>wsize := rect_setPos pos (wsize w),
           adjust_wsize := rect_setPos pos (adjust_wsize w)\<rparr>)"

definition setPos ::
  "layout_ctx \<Rightarrow> int \<times> int \<Rightarrow> bool \<Rightarrow> widget_tree \<Rightarrow> widget_tree option" where
  "setPos ctx p adjust t =
     (let w = node t
      in if getX w = fst p \<and> X1 (wsize w) = fst p \<and> getY w = snd p \<and> Y1 (wsize w) = snd p
         then Some t
         else if adjust then adjustSize ctx (Widget (store_pos p w) (children t))
         else Some (Widget (store_pos p w) (children t)))"

text \<open>The size setters test the clamped size, and store it after raising 0 to 1.\<close>

definition store_width :: "nat \<Rightarrow> fwidget \<Rightarrow> fwidget" where
  "store_width width w =
     (let width1 = (if width < 1 then 1 else width)
      in w\<lparr>wsize := rect_setWidth width1 (wsize w),
           adjust_wsize := rect_setWidth width1 (adjust_wsize w)\<rparr>)"

definition setWidth :: "layout_ctx \<Rightarrow> nat \<Rightarrow> bool \<Rightarrow> widget_tree \<Rightarrow> widget_tree option" where
  "setWidth ctx width adjust t =
     (let w = node t;
          width1 = min width (max_width (size_hints w));
          width2 = max width1 (min_width (size_hints w))
      in if getWidth w = width2 \<and> rect_getWidth (wsize w) = width2 then Some t
         else case (if adjust then adjustSize ctx (Widget (store_width width2 w) (children t))
                    else Some (Widget (store_width width2 w) (children t))) of
                None \<Rightarrow> None
              | Some t1 \<Rightarrow> Some (Widget (resize_masks_width (node t1)) (children t1)))"

definition store_height :: "nat \<Rightarrow> fwidget \<Rightarrow> fwidget" where
  "store_height height w =
     (let height1 = (if height < 1 then 1 else height)
      in w\<lparr>wsize := rect_setHeight height1 (wsize w),
           adjust_wsize := rect_setHeight height1 (adjust_wsize w)\<rparr>)"

definition setHeight :: "layout_ctx \<Rightarrow> nat \<Rightarrow> bool \<Rightarrow> widget_tree \<Rightarrow> widget_tree option" where
  "setHeight ctx height adjust t =
     (let w = node t;
          height1 = min height (max_height (size_hints w));
          height2 = max height1 (min_height (size_hints w))
      in if getHeight w = height2 \<and> rect_getHeight (wsize w) = height2 then Some t
         else case (if adjust then adjustSize ctx (Widget (store_height height2 w) (children t))
                    else Some (Widget (store_height height2 w) (children t))) of
                None \<Rightarrow> None
              | Some t1 \<Rightarrow> Some (Widget (resize_masks_height (node t1)) (children t1)))"

definition store_size :: "nat \<Rightarrow> nat \<Rightarrow> fwidget \<Rightarrow> fwidget" where
  "store_size width height w =
     (let width1 = (if width < 1 then 1 else width);
          height1 = (if height < 1 then 1 else height)
      in w\<lparr>wsize := rect_setHeight height1 (rect_setWidth width1 (wsize w)),
           adjust_wsize := rect_setHeight height1 (rect_setWidth width1 (adjust_wsize w))\<rparr>)"

definition setSize ::
  "layout_ctx \<Rightarrow> nat \<times> nat \<Rightarrow> bool \<Rightarrow> widget_tree \<Rightarrow> widget_tree option" where
  "setSize ctx sz adjust t =
     (let w = node t;
          width1 = min (fst sz) (max_width (size_hints w));
          width2 = max width1 (min_width (size_hints w));
          height1 = min (snd sz) (max_height (size_hints w));
          height2 = max height1 (min_height (size_hints w))
      in if getWidth w = width2 \<and> rect_getWidth (wsize w) = width2
            \<and> getHeight w = height2 \<and> rect_getHeight (wsize w) = height2
         then Some t
         else case (if adjust
                    then adjustSize ctx (Widget (store_size width2 height2 w) (children t))
                    else Some (Widget (store_size width2 height2 w) (children t))) of
                None \<Rightarrow> None
              | Some t1 \<Rightarrow> Some (Widget (resize_masks (node t1)) (children t1)))"

text \<open>\<^verbatim>\<open>setGeometry\<close> writes the requested rectangle, copies it to the adjusted one,
  recomputes the client offset and resizes the masks, all before \<^verbatim>\<open>if ( adjust )\<close>.\<close>

definition store_geometry :: "int \<times> int \<Rightarrow> nat \<Rightarrow> nat \<Rightarrow> fwidget \<Rightarrow> fwidget" where
  "store_geometry p w h wd =
     (let x = fst p;
          y = snd p;
          r1 = (if \<not> window_widget wd
                then rect_setY (if y < 1 then 1 else y)
                       (rect_setX (if x < 1 then 1 else x) (wsize wd))
                else rect_setY y (rect_setX x (wsize wd)));
          r2 = rect_setWidth (if w < 1 then 1 else w) r1;
          r3 = rect_setHeight (if h < 1 then 1 else h) r2;
          wd1 = wd\<lparr>wsize := r3, adjust_wsize := r3\<rparr>
      in resize_masks (set_client_offset wd1))"

definition setGeometry ::
  "layout_ctx \<Rightarrow> int \<times> int \<Rightarrow> nat \<times> nat \<Rightarrow> bool \<Rightarrow> widget_tree \<Rightarrow> widget_tree option" where
  "setGeometry ctx p s adjust t =
     (let wd = node t;
          w1 = min (fst s) (max_width (size_hints wd));
          w = max w1 (min_width (size_hints wd));
          h1 = min (snd s) (max_height (size_hints wd));
          h = max h1 (min_height (size_hints wd))
      in if getPos wd = p \<and> getWidth wd = w \<and> getHeight wd = h then Some t
         else if adjust then adjustSize ctx (Widget (store_geometry p w h wd) (children t))
         else Some (Widget (store_geometry p w h wd) (children t)))"

text \<open>\<^verbatim>\<open>resize\<close> on a widget that is not the root (the \<^verbatim>\<open>else\<close> branch; the root's branch
  asks the terminal for its size).\<close>

definition resize :: "layout_ctx \<Rightarrow> widget_tree \<Rightarrow> widget_tree option" where
  "resize ctx t =
     (case adjustSize ctx t of
        None \<Rightarrow> None
      | Some t1 \<Rightarrow> Some (Widget (resize_masks (node t1)) (children t1)))"

subsection \<open>A call of one of the setters\<close>

text \<open>The seven geometry setters with their arguments, the last one being the
  \<^verbatim>\<open>adjust\<close> flag.\<close>

datatype geometry_call =
    SetX int bool
  | SetY int bool
  | SetPos "int \<times> int" bool
  | SetWidth nat bool
  | SetHeight nat bool
  | SetSize "nat \<times> nat" bool
  | SetGeometry "int \<times> int" "nat \<times> nat" bool

fun call_setter :: "layout_ctx \<Rightarrow> geometry_call \<Rightarrow> widget_tree \<Rightarrow> widget_tree option" where
  "call_setter ctx (SetX x adjust) t = setX ctx x adjust t"
| "call_setter ctx (SetY y adjust) t = setY ctx y adjust t"
| "call_setter ctx (SetPos p adjust) t = setPos ctx p adjust t"
| "call_setter ctx (SetWidth n adjust) t = setWidth ctx n adjust t"
| "call_setter ctx (SetHeight n adjust) t = setHeight ctx n adjust t"
| "call_setter ctx (SetSize s adjust) t = setSize ctx s adjust t"
| "call_setter ctx (SetGeometry p s adjust) t = setGeometry ctx p s adjust t"

fun adjust_flag :: "geometry_call \<Rightarrow> bool" where
  "adjust_flag (SetX x adjust) = adjust"
| "adjust_flag (SetY y adjust) = adjust"
| "adjust_flag (SetPos p adjust) = adjust"
| "adjust_flag (SetWidth n adjust) = adjust"
| "adjust_flag (SetHeight n adjust) = adjust"
| "adjust_flag (SetSize s adjust) = adjust"
| "adjust_flag (SetGeometry p s adjust) = adjust"

fun is_SetGeometry :: "geometry_call \<Rightarrow> bool" where
  "is_SetGeometry (SetGeometry p s adjust) = True"
| "is_SetGeometry c = False"

fun is_SetSize :: "geometry_call \<Rightarrow> bool" where
  "is_SetSize (SetSize s adjust) = True"
| "is_SetSize c = False"



text \<open>The position a call asks for, as passed, and the size it asks for, as the setters
  clamp it: \<^verbatim>\<open>std::min\<close> with the maximum hint, then \<^verbatim>\<open>std::max\<close> with the minimum hint.\<close>

fun call_x :: "geometry_call \<Rightarrow> int option" where
  "call_x (SetX x adjust) = Some x"
| "call_x (SetPos p adjust) = Some (fst p)"
| "call_x (SetGeometry p s adjust) = Some (fst p)"
| "call_x c = None"

fun call_y :: "geometry_call \<Rightarrow> int option" where
  "call_y (SetY y adjust) = Some y"
| "call_y (SetPos p adjust) = Some (snd p)"
| "call_y (SetGeometry p s adjust) = Some (snd p)"
| "call_y c = None"

fun call_width :: "widget_size_hints \<Rightarrow> geometry_call \<Rightarrow> nat option" where
  "call_width h (SetWidth n adjust) = Some (max (min n (max_width h)) (min_width h))"
| "call_width h (SetSize s adjust) = Some (max (min (fst s) (max_width h)) (min_width h))"
| "call_width h (SetGeometry p s adjust) = Some (max (min (fst s) (max_width h)) (min_width h))"
| "call_width h c = None"

fun call_height :: "widget_size_hints \<Rightarrow> geometry_call \<Rightarrow> nat option" where
  "call_height h (SetHeight n adjust) = Some (max (min n (max_height h)) (min_height h))"
| "call_height h (SetSize s adjust) = Some (max (min (snd s) (max_height h)) (min_height h))"
| "call_height h (SetGeometry p s adjust) =
     Some (max (min (snd s) (max_height h)) (min_height h))"
| "call_height h c = None"

text \<open>Every component a call asks for is the one the rectangle \<open>r\<close> has.\<close>

definition call_matches :: "widget_size_hints \<Rightarrow> geometry_call \<Rightarrow> FRect \<Rightarrow> bool" where
  "call_matches h c r =
     ((case call_x c of None \<Rightarrow> True | Some x \<Rightarrow> X1 r = x)
      \<and> (case call_y c of None \<Rightarrow> True | Some y \<Rightarrow> Y1 r = y)
      \<and> (case call_width h c of None \<Rightarrow> True | Some n \<Rightarrow> rect_getWidth r = n)
      \<and> (case call_height h c of None \<Rightarrow> True | Some n \<Rightarrow> rect_getHeight r = n))"

subsection \<open>What the claims speak of\<close>




definition mask_width_ok :: "fwidget \<Rightarrow> bool" where
  "mask_width_ok w =
     (length (mask_top (double_flatline_mask w)) = getWidth w
      \<and> length (mask_bottom (double_flatline_mask w)) = getWidth w)"

definition mask_height_ok :: "fwidget \<Rightarrow> bool" where
  "mask_height_ok w =
     (length (mask_left (double_flatline_mask w)) = getHeight w
      \<and> length (mask_right (double_flatline_mask w)) = getHeight w)"

definition mask_ok :: "fwidget \<Rightarrow> bool" where
  "mask_ok w = (mask_width_ok w \<and> mask_height_ok w)"




subsection \<open>Example widgets\<close>

definition no_padding :: widget_padding where
  "no_padding = \<lparr>pad_top = 0, pad_left = 0, pad_bottom = 0, pad_right = 0\<rparr>"

definition default_hints :: widget_size_hints where
  "default_hints =
     \<lparr>min_width = 0, min_height = 0, max_width = 2147483647, max_height = 2147483647\<rparr>"

definition no_mask :: dbl_line_mask where
  "no_mask = \<lparr>mask_top = [], mask_right = [], mask_bottom = [], mask_left = []\<rparr>"

text \<open>A parent covering a terminal of 80 columns and 24 lines.\<close>

definition parent80 :: fwidget where
  "parent80 =
     \<lparr>wsize = setCoordinates 1 1 80 24,
      adjust_wsize = setCoordinates 1 1 80 24,
      offset = setCoordinates 0 0 79 23,
      client_offset = setCoordinates 0 0 79 23,
      padding = no_padding,
      size_hints = default_hints,
      double_flatline_mask =
        \<lparr>mask_top = replicate 80 False, mask_right = replicate 24 False,
         mask_bottom = replicate 80 False, mask_left = replicate 24 False\<rparr>,
      ignore_padding = False,
      window_widget = False,
      dialog_widget = False,
      child_print_area = False\<rparr>"

definition ctx80 :: layout_ctx where
  "ctx80 =
     \<lparr>is_root = False, parent_widget = Some parent80, root_widget = parent80,
      root_object = parent80\<rparr>"

text \<open>A child of 10 columns and 5 lines at position (1, 1) of that parent, laid out.\<close>

definition child10x5 :: fwidget where
  "child10x5 =
     \<lparr>wsize = setCoordinates 1 1 10 5,
      adjust_wsize = setCoordinates 1 1 10 5,
      offset = setCoordinates 0 0 79 23,
      client_offset = setCoordinates 0 0 9 4,
      padding = no_padding,
      size_hints = default_hints,
      double_flatline_mask =
        \<lparr>mask_top = replicate 10 False, mask_right = replicate 5 False,
         mask_bottom = replicate 10 False, mask_left = replicate 5 False\<rparr>,
      ignore_padding = False,
      window_widget = False,
      dialog_widget = False,
      child_print_area = False\<rparr>"

text \<open>A child as its constructor leaves it: one cell at (1, 1), the offset taken from the
  parent's client offset, the client offset still the empty rectangle.\<close>

definition fresh_child :: fwidget where
  "fresh_child =
     child10x5
       \<lparr>wsize := setCoordinates 1 1 1 1,
        adjust_wsize := setCoordinates 1 1 1 1,
        client_offset := setCoordinates 0 0 (- 1) (- 1),
        double_flatline_mask :=
          \<lparr>mask_top = [False], mask_right = [False], mask_bottom = [False],
           mask_left = [False]\<rparr>\<rparr>"

text \<open>A child of 10 columns and 10 lines with a minimum height of 5, in an offset that
  leaves it two lines.\<close>

definition squeezed_child :: fwidget where
  "squeezed_child =
     child10x5
       \<lparr>wsize := setCoordinates 1 1 10 10,
        adjust_wsize := setCoordinates 1 1 10 10,
        offset := setCoordinates 0 0 79 1,
        size_hints := default_hints\<lparr>min_height := 5\<rparr>\<rparr>"

text \<open>A child of 100 columns, wider than its parent, as \<^verbatim>\<open>setSize\<close> without adjustment
  leaves it.\<close>

definition wide_child :: fwidget where
  "wide_child =
     child10x5
       \<lparr>wsize := setCoordinates 1 1 100 5,
        adjust_wsize := setCoordinates 1 1 100 5,
        double_flatline_mask :=
          \<lparr>mask_top = replicate 100 False, mask_right = replicate 5 False,
           mask_bottom = replicate 100 False, mask_left = replicate 5 False\<rparr>\<rparr>"



text \<open>The laid-out child after its size was set to 20 columns and 8 lines without
  adjustment, and after it was moved to (5, 1) without adjustment.\<close>

definition child20x8 :: fwidget where
  "child20x8 =
     child10x5
       \<lparr>wsize := setCoordinates 1 1 20 8,
        adjust_wsize := setCoordinates 1 1 20 8,
        double_flatline_mask :=
          \<lparr>mask_top = replicate 20 False, mask_right = replicate 8 False,
           mask_bottom = replicate 20 False, mask_left = replicate 8 False\<rparr>\<rparr>"


text \<open>The wide child after a layout pass in its parent: 80 columns are left.\<close>

definition wide_child_adjusted :: fwidget where
  "wide_child_adjusted =
     wide_child
       \<lparr>adjust_wsize := setCoordinates 1 1 80 5, client_offset := setCoordinates 0 0 79 4\<rparr>"


definition child20x8_adjusted :: fwidget where
  "child20x8_adjusted = child20x8\<lparr>client_offset := setCoordinates 0 0 19 7\<rparr>"

definition child20x5_adjusted :: fwidget where
  "child20x5_adjusted =
     child10x5
       \<lparr>wsize := setCoordinates 1 1 20 5,
        adjust_wsize := setCoordinates 1 1 20 5,
        client_offset := setCoordinates 0 0 19 4,
        double_flatline_mask :=
          \<lparr>mask_top = replicate 20 False, mask_right = replicate 5 False,
           mask_bottom = replicate 20 False, mask_left = replicate 5 False\<rparr>\<rparr>"

definition child10x8_adjusted :: fwidget where
  "child10x8_adjusted =
     child10x5
       \<lparr>wsize := setCoordinates 1 1 10 8,
        adjust_wsize := setCoordinates 1 1 10 8,
        client_offset := setCoordinates 0 0 9 7,
        double_flatline_mask :=
          \<lparr>mask_top = replicate 10 False, mask_right = replicate 8 False,
           mask_bottom = replicate 10 False, mask_left = replicate 8 False\<rparr>\<rparr>"

text \<open>The wide child after \<^verbatim>\<open>resize\<close>: the layout pass, then masks of 80 cells.\<close>

definition wide_child_resized :: fwidget where
  "wide_child_resized =
     wide_child_adjusted
       \<lparr>double_flatline_mask :=
          \<lparr>mask_top = replicate 80 False, mask_right = replicate 5 False,
           mask_bottom = replicate 80 False, mask_left = replicate 5 False\<rparr>\<rparr>"

text \<open>The constructed child after a layout pass: its client offset is its one cell.\<close>

definition fresh_child_laid_out :: fwidget where
  "fresh_child_laid_out = fresh_child\<lparr>client_offset := setCoordinates 0 0 0 0\<rparr>"



section \<open>Theorems: FProgressbar\<close>

lemma NOT_SET_gt_100: "(100 :: size_t) < NOT_SET"
  by (simp add: NOT_SET_def)

lemma percentage_pb_refresh: "percentage (pb_refresh pb) = percentage pb"
  by (simp add: pb_refresh_def Let_def)

lemma setPercentage_valid:
  "pct_valid (percentage pb) \<Longrightarrow> pct_valid (percentage (setPercentage v pb))"
  by (auto simp: setPercentage_def percentage_pb_refresh pct_valid_def)

lemma reset_valid: "pct_valid (percentage (reset pb))"
  by (simp add: reset_def percentage_pb_refresh pct_valid_def)

lemma setPercentage_step:
  assumes "pct_valid (percentage pb)" and "v \<noteq> NOT_SET"
  shows "pct_le (percentage pb) (percentage (setPercentage v pb))"
    and "percentage (setPercentage v pb) \<noteq> NOT_SET"
proof -
  have ne: "(100 :: size_t) \<noteq> NOT_SET"
    using NOT_SET_gt_100 by auto
  show "percentage (setPercentage v pb) \<noteq> NOT_SET"
    using assms ne by (auto simp: setPercentage_def percentage_pb_refresh)
  show "pct_le (percentage pb) (percentage (setPercentage v pb))"
  proof (cases "percentage pb = NOT_SET")
    case True
    then show ?thesis by (simp add: pct_le_def)
  next
    case False
    with assms(1) have le: "percentage pb \<le> 100"
      by (simp add: pct_valid_def)
    show ?thesis
      using assms(2) False le ne
      by (auto simp: setPercentage_def percentage_pb_refresh pct_le_def)
  qed
qed

lemma pct_le_trans: "pct_le p q \<Longrightarrow> pct_le q r \<Longrightarrow> pct_le p r"
  by (auto simp: pct_le_def)

lemma pct_le_refl: "pct_le p p"
  by (simp add: pct_le_def)

lemma setPercentage_fold_mono:
  "pct_valid (percentage pb) \<Longrightarrow> \<forall>v \<in> set vs. v \<noteq> NOT_SET \<Longrightarrow>
     pct_le (percentage pb) (percentage (fold setPercentage vs pb))"
proof (induction vs arbitrary: pb)
  case Nil
  then show ?case by (simp add: pct_le_refl)
next
  case (Cons v vs)
  have step: "pct_le (percentage pb) (percentage (setPercentage v pb))"
    using Cons.prems by (simp add: setPercentage_step(1))
  have rest: "pct_le (percentage (setPercentage v pb))
                (percentage (fold setPercentage vs (setPercentage v pb)))"
    using Cons.prems by (intro Cons.IH) (simp_all add: setPercentage_valid)
  from pct_le_trans [OF step rest] show ?case by simp
qed

text \<open>
  Claim C10. On a progress bar whose stored percentage is \<^verbatim>\<open>NOT_SET\<close> or at most 100
  (all that the constructor, \<^verbatim>\<open>setPercentage\<close> and \<^verbatim>\<open>reset\<close> ever store): a value above
  100 other than the sentinel is stored as 100; a value less than or equal to a stored,
  set percentage leaves the whole progress bar unchanged; over any sequence of calls with
  non-sentinel values the stored percentage never goes down in the progress order (not
  set below every set value); \<^verbatim>\<open>reset\<close> and \<^verbatim>\<open>setPercentage(NOT_SET)\<close> put it back to
  \<^verbatim>\<open>NOT_SET\<close>.
\<close>

theorem setPercentage_non_decreasing:
  assumes "pct_valid (percentage pb)"
  shows "(v1 \<noteq> NOT_SET \<longrightarrow> v1 > 100 \<longrightarrow> percentage (setPercentage v1 pb) = 100)
       \<and> (percentage pb \<noteq> NOT_SET \<longrightarrow> v2 \<le> percentage pb \<longrightarrow> setPercentage v2 pb = pb)
       \<and> ((\<forall>v \<in> set vs. v \<noteq> NOT_SET) \<longrightarrow>
             pct_le (percentage pb) (percentage (fold setPercentage vs pb)))
       \<and> percentage (reset pb) = NOT_SET
       \<and> percentage (setPercentage NOT_SET pb) = NOT_SET"
proof -
  have clamp: "v1 \<noteq> NOT_SET \<longrightarrow> v1 > 100 \<longrightarrow> percentage (setPercentage v1 pb) = 100"
    by (simp add: setPercentage_def percentage_pb_refresh)
  have same: "percentage pb \<noteq> NOT_SET \<longrightarrow> v2 \<le> percentage pb \<longrightarrow> setPercentage v2 pb = pb"
  proof (intro impI)
    assume set: "percentage pb \<noteq> NOT_SET" and le: "v2 \<le> percentage pb"
    from assms set have "percentage pb \<le> 100"
      by (simp add: pct_valid_def)
    with le have v100: "v2 \<le> 100" by simp
    have "v2 \<noteq> NOT_SET"
      using v100 NOT_SET_gt_100 by auto
    with v100 le set show "setPercentage v2 pb = pb"
      by (simp add: setPercentage_def percentage_pb_refresh)
  qed
  have mono: "(\<forall>v \<in> set vs. v \<noteq> NOT_SET) \<longrightarrow>
          pct_le (percentage pb) (percentage (fold setPercentage vs pb))"
    using assms by (simp add: setPercentage_fold_mono)
  have r: "percentage (reset pb) = NOT_SET"
    by (simp add: reset_def percentage_pb_refresh)
  have n: "percentage (setPercentage NOT_SET pb) = NOT_SET"
    by (simp add: setPercentage_def percentage_pb_refresh)
  from clamp same mono r n show ?thesis by blast
qed

theorem setPercentage_non_decreasing_witness:
  "pct_valid (percentage pb40)
   \<and> (150 :: size_t) \<noteq> NOT_SET \<and> (150 :: size_t) > 100
   \<and> percentage (setPercentage 150 pb40) = 100
   \<and> percentage pb40 \<noteq> NOT_SET \<and> 30 \<le> percentage pb40
   \<and> setPercentage 30 pb40 = pb40
   \<and> list_all (\<lambda>v. v \<noteq> NOT_SET) [10, 50, 30, 200 :: size_t]
   \<and> pct_le (percentage pb40) (percentage (fold setPercentage [10, 50, 30, 200] pb40))
   \<and> percentage (reset pb40) = NOT_SET
   \<and> percentage (setPercentage NOT_SET pb40) = NOT_SET"
proof -
  have valid: "pct_valid (percentage pb40)"
    by (simp add: pb40_def pct_valid_def)
  have facts: "(150 :: size_t) \<noteq> NOT_SET" "(150 :: size_t) > 100"
    "percentage pb40 \<noteq> NOT_SET" "30 \<le> percentage pb40"
    "list_all (\<lambda>v. v \<noteq> NOT_SET) [10, 50, 30, 200 :: size_t]"
    by (simp_all add: pb40_def NOT_SET_def)
  have all: "\<forall>v \<in> set [10, 50, 30, 200 :: size_t]. v \<noteq> NOT_SET"
    using facts(5) by (simp only: list_all_iff)
  from setPercentage_non_decreasing
         [OF valid, of 150 30 "[10, 50, 30, 200]"] valid facts all
  show ?thesis by blast
qed

section \<open>Theorems: the callback registry\<close>

lemma emit_member_loop_eq:
  "emit_member_loop this s ms log =
     log @ map (\<lambda>m. MemberCall (mcb_instance m) (mcb_handler m) this (mcb_data m))
             (filter (\<lambda>m. mcb_signal m = s) ms)"
  by (induction ms arbitrary: log) simp_all

lemma emit_free_loop_eq:
  "emit_free_loop this s cs log =
     log @ map (\<lambda>c. FreeCall (cb_handler c) this (data c))
             (filter (\<lambda>c. cb_signal c = s) cs)"
  by (induction cs arbitrary: log) simp_all

text \<open>
  Claim C1 as amended. For every widget and every signal name, \<^verbatim>\<open>emitCallback\<close> calls
  exactly once every registered entry whose signal equals the emitted one: first the
  instance-bound (member function) entries in their registration order, then the
  free-standing (function pointer) entries in their registration order.
\<close>

theorem emitCallback_members_then_free:
  "emitCallback this r s log = log @ member_calls this r s @ free_calls this r s"
proof -
  have m: "(if member_callback_objects r \<noteq> []
            then emit_member_loop this s (member_callback_objects r) log else log)
           = log @ member_calls this r s"
    by (simp add: emit_member_loop_eq member_calls_def)
  have f: "\<And>l. (if callback_objects r \<noteq> []
            then emit_free_loop this s (callback_objects r) l else l)
           = l @ free_calls this r s"
    by (simp add: emit_free_loop_eq free_calls_def)
  show ?thesis
    unfolding emitCallback_def Let_def m f by simp
qed

text \<open>
  Claim C1 as stated fails: with two free-standing handlers and one instance-bound
  handler registered for \<^verbatim>\<open>clicked\<close>, the instance-bound handler is called first.
\<close>

theorem emitCallback_free_first_counterexample:
  "emitCallback 1 clicked_registry ''clicked'' []
     = [MemberCall 7 30 1 0, FreeCall 10 1 0, FreeCall 20 1 0]
   \<and> spec_emit_order 1 clicked_registry ''clicked''
     = [FreeCall 10 1 0, FreeCall 20 1 0, MemberCall 7 30 1 0]
   \<and> emitCallback 1 clicked_registry ''clicked'' []
     \<noteq> spec_emit_order 1 clicked_registry ''clicked''"
  by (simp add: emitCallback_def spec_emit_order_def free_calls_def member_calls_def
        clicked_registry_def addCallback_def addMemberCallback_def)

section \<open>Theorems: focus\<close>









lemma app_focus0_eq:
  "app_focus0 = app0\<lparr>focus_widget := Some 0,
       flags := (flags app0)(0 := (flags app0 0)\<lparr>flag_focus := True\<rparr>)\<rparr>"
  by (simp add: app_focus0_def app0_def plain_env_def isEnabled_def Let_def)



text \<open>
  Claim C7. When the common parent accepts the child-focus-out event, \<^verbatim>\<open>changeFocus\<close>
  does nothing after the two dispatches: the state it returns is the state the focus-out
  and child-focus-out handlers left, so the focus flags and the global focus pointer are
  as they were and \<^verbatim>\<open>setFocus\<close> is not called on the follower.
\<close>

theorem changeFocus_parent_veto:
  assumes "sendEvent env this
             \<lparr>ev_type = FocusOut_Event, focus_type = ft, accpt = True\<rparr> s = (out, s1)"
    and "sendEvent env parent
             \<lparr>ev_type = ChildFocusOut_Event, focus_type = ft, accpt = False\<rparr> s1 = (cfo, s2)"
    and "accpt cfo"
  shows "changeFocus env this follower parent ft s = (True, s2)
       \<and> focus_widget (snd (changeFocus env this follower parent ft s)) = focus_widget s2
       \<and> hasFocus (snd (changeFocus env this follower parent ft s)) w = hasFocus s2 w"
  using assms by (simp add: changeFocus_def Let_def)

theorem changeFocus_parent_veto_witness:
  "sendEvent veto_env 0 \<lparr>ev_type = FocusOut_Event, focus_type = FocusNextWidget, accpt = True\<rparr>
       app_focus0
     = (\<lparr>ev_type = FocusOut_Event, focus_type = FocusNextWidget, accpt = True\<rparr>, app_focus0)
   \<and> sendEvent veto_env 5
       \<lparr>ev_type = ChildFocusOut_Event, focus_type = FocusNextWidget, accpt = False\<rparr> app_focus0
     = (\<lparr>ev_type = ChildFocusOut_Event, focus_type = FocusNextWidget, accpt = True\<rparr>,
        app_focus0)
   \<and> accpt \<lparr>ev_type = ChildFocusOut_Event, focus_type = FocusNextWidget, accpt = True\<rparr>
   \<and> changeFocus veto_env 0 1 5 FocusNextWidget app_focus0 = (True, app_focus0)
   \<and> hasFocus app_focus0 0 \<and> \<not> hasFocus app_focus0 1
   \<and> focus_widget app_focus0 = Some 0"
proof -
  have a: "sendEvent veto_env 0
        \<lparr>ev_type = FocusOut_Event, focus_type = FocusNextWidget, accpt = True\<rparr> app_focus0
     = (\<lparr>ev_type = FocusOut_Event, focus_type = FocusNextWidget, accpt = True\<rparr>, app_focus0)"
    by (simp add: veto_env_def plain_env_def)
  have b: "sendEvent veto_env 5
       \<lparr>ev_type = ChildFocusOut_Event, focus_type = FocusNextWidget, accpt = False\<rparr> app_focus0
     = (\<lparr>ev_type = ChildFocusOut_Event, focus_type = FocusNextWidget, accpt = True\<rparr>,
        app_focus0)"
    by (simp add: veto_env_def plain_env_def)
  have c: "accpt \<lparr>ev_type = ChildFocusOut_Event, focus_type = FocusNextWidget, accpt = True\<rparr>"
    by simp
  have d: "hasFocus app_focus0 0" "\<not> hasFocus app_focus0 1" "focus_widget app_focus0 = Some 0"
    by (simp_all add: app_focus0_eq app0_def hasFocus_def)
  from changeFocus_parent_veto [OF a b c, of 1 0] a b c d show ?thesis by blast
qed

text \<open>
  Claim C9 as amended. \<^verbatim>\<open>changeFocus\<close> with the follower equal to the calling widget
  dispatches the focus-out and the child-focus-out event and does nothing else: it returns
  the state the two handlers left. It returns false exactly when the focus-out event ends
  accepted (the widget's handler left it accepted and the parent did not accept the
  child-focus-out event), and true otherwise.
\<close>

theorem changeFocus_self:
  assumes "sendEvent env this
             \<lparr>ev_type = FocusOut_Event, focus_type = ft, accpt = True\<rparr> s = (out, s1)"
    and "sendEvent env parent
             \<lparr>ev_type = ChildFocusOut_Event, focus_type = ft, accpt = False\<rparr> s1 = (cfo, s2)"
  shows "changeFocus env this this parent ft s = (\<not> (accpt out \<and> \<not> accpt cfo), s2)"
  using assms by (simp add: changeFocus_def Let_def)

theorem changeFocus_self_witness:
  "sendEvent plain_env 0 \<lparr>ev_type = FocusOut_Event, focus_type = FocusNextWidget, accpt = True\<rparr>
       app_focus0
     = (\<lparr>ev_type = FocusOut_Event, focus_type = FocusNextWidget, accpt = True\<rparr>, app_focus0)
   \<and> sendEvent plain_env 5
       \<lparr>ev_type = ChildFocusOut_Event, focus_type = FocusNextWidget, accpt = False\<rparr> app_focus0
     = (\<lparr>ev_type = ChildFocusOut_Event, focus_type = FocusNextWidget, accpt = False\<rparr>,
        app_focus0)
   \<and> changeFocus plain_env 0 0 5 FocusNextWidget app_focus0 = (False, app_focus0)"
proof -
  have a: "sendEvent plain_env 0
        \<lparr>ev_type = FocusOut_Event, focus_type = FocusNextWidget, accpt = True\<rparr> app_focus0
     = (\<lparr>ev_type = FocusOut_Event, focus_type = FocusNextWidget, accpt = True\<rparr>, app_focus0)"
    by (simp add: plain_env_def)
  have b: "sendEvent plain_env 5
       \<lparr>ev_type = ChildFocusOut_Event, focus_type = FocusNextWidget, accpt = False\<rparr> app_focus0
     = (\<lparr>ev_type = ChildFocusOut_Event, focus_type = FocusNextWidget, accpt = False\<rparr>,
        app_focus0)"
    by (simp add: plain_env_def)
  from changeFocus_self [OF a b] a b show ?thesis by simp
qed

text \<open>
  Claim C9 as stated fails: when the parent accepts the child-focus-out event, a
  self-transfer returns true.
\<close>

theorem changeFocus_self_counterexample:
  "changeFocus veto_env 0 0 5 FocusNextWidget app_focus0 = (True, app_focus0)
   \<and> fst (changeFocus veto_env 0 0 5 FocusNextWidget app_focus0) \<noteq> False"
  by (simp add: changeFocus_def veto_env_def plain_env_def Let_def)

section \<open>Theorems: geometry\<close>

subsection \<open>insufficientSpaceAdjust and the minimum size\<close>

text \<open>
  Claim C3, evaluated on a widget of 10 columns and 10 lines with a minimum height of 5
  whose offset leaves it two lines: \<^verbatim>\<open>insufficientSpaceAdjust\<close> returns with a height of 2,
  below the minimum height, and has set the width to 5, the minimum height.
\<close>

theorem insufficientSpaceAdjust_below_min_height:
  "insufficientSpaceAdjust squeezed_child
     = Some (squeezed_child\<lparr>adjust_wsize := setCoordinates 1 1 5 2\<rparr>)
   \<and> \<not> window_widget squeezed_child
   \<and> min_height (size_hints squeezed_child) = 5
   \<and> getHeight (squeezed_child\<lparr>adjust_wsize := setCoordinates 1 1 5 2\<rparr>) = 2
   \<and> getWidth squeezed_child = 10
   \<and> getWidth (squeezed_child\<lparr>adjust_wsize := setCoordinates 1 1 5 2\<rparr>) = 5"
  by (simp add: insufficientSpaceAdjust_def keep_min_width_def keep_min_height_def
        move_left_loop.simps move_up_loop.simps reduce_width_loop.simps
        reduce_height_loop.simps getWidth_def getHeight_def getTermX_def getTermY_def
        rect_getWidth_def rect_getHeight_def rect_setWidth_def rect_setHeight_def
        setCoordinates_def squeezed_child_def child10x5_def no_padding_def
        default_hints_def Let_def)

subsection \<open>Sizes of the stored rectangles\<close>

lemma rect_sizes:
  "rect_getWidth (rect_setWidth n r) = n"
  "rect_getHeight (rect_setHeight n r) = n"
  "rect_getWidth (rect_setHeight n r) = rect_getWidth r"
  "rect_getHeight (rect_setWidth n r) = rect_getHeight r"
  "rect_getWidth (rect_setX x r) = rect_getWidth r"
  "rect_getHeight (rect_setX x r) = rect_getHeight r"
  "rect_getWidth (rect_setY y r) = rect_getWidth r"
  "rect_getHeight (rect_setY y r) = rect_getHeight r"
  "rect_getWidth (rect_setPos p r) = rect_getWidth r"
  "rect_getHeight (rect_setPos p r) = rect_getHeight r"
  by (simp_all add: rect_getWidth_def rect_getHeight_def rect_setWidth_def rect_setHeight_def
        rect_setX_def rect_setY_def rect_setPos_def Let_def)

lemma store_sizes:
  "getWidth (store_x x w) = getWidth w" "getHeight (store_x x w) = getHeight w"
  "getWidth (store_y y w) = getWidth w" "getHeight (store_y y w) = getHeight w"
  "getWidth (store_pos p w) = getWidth w" "getHeight (store_pos p w) = getHeight w"
  "getWidth (store_width n w) = (if n < 1 then 1 else n)"
  "rect_getWidth (wsize (store_width n w)) = (if n < 1 then 1 else n)"
  "getHeight (store_width n w) = getHeight w"
  "getHeight (store_height n w) = (if n < 1 then 1 else n)"
  "rect_getHeight (wsize (store_height n w)) = (if n < 1 then 1 else n)"
  "getWidth (store_height n w) = getWidth w"
  "getWidth (store_size n m w) = (if n < 1 then 1 else n)"
  "rect_getWidth (wsize (store_size n m w)) = (if n < 1 then 1 else n)"
  "getHeight (store_size n m w) = (if m < 1 then 1 else m)"
  "rect_getHeight (wsize (store_size n m w)) = (if m < 1 then 1 else m)"
  "getWidth (store_geometry p n m w) = (if n < 1 then 1 else n)"
  "rect_getWidth (wsize (store_geometry p n m w)) = (if n < 1 then 1 else n)"
  "getHeight (store_geometry p n m w) = (if m < 1 then 1 else m)"
  "rect_getHeight (wsize (store_geometry p n m w)) = (if m < 1 then 1 else m)"
  by (simp_all add: store_x_def store_y_def store_pos_def store_width_def store_height_def
        store_size_def store_geometry_def set_client_offset_def resize_masks_def
        getWidth_def getHeight_def rect_sizes Let_def)

lemma resize_masks_sizes:
  "getWidth (resize_masks w) = getWidth w" "getHeight (resize_masks w) = getHeight w"
  "getWidth (resize_masks_width w) = getWidth w" "getHeight (resize_masks_width w) = getHeight w"
  "getWidth (resize_masks_height w) = getWidth w"
  "getHeight (resize_masks_height w) = getHeight w"
  "wsize (resize_masks w) = wsize w" "wsize (resize_masks_width w) = wsize w"
  "wsize (resize_masks_height w) = wsize w"
  by (simp_all add: getWidth_def getHeight_def resize_masks_def resize_masks_width_def
        resize_masks_height_def)

subsection \<open>The client offset\<close>











subsection \<open>Calls that change nothing\<close>

text \<open>
  Claim C8 as amended. A geometry setter call whose position as passed (before it is raised
  to 1) and whose clamped size are those of the adjusted rectangle and, for every setter
  but \<^verbatim>\<open>setGeometry\<close>, also those of the requested rectangle, returns at its first test:
  the widget and its children are unchanged and \<^verbatim>\<open>adjustSize\<close> is not called, whatever the
  adjust flag.
\<close>

theorem setter_noop:
  assumes "call_matches (size_hints (node t)) c (adjust_wsize (node t))"
    and "is_SetGeometry c \<or> call_matches (size_hints (node t)) c (wsize (node t))"
  shows "call_setter ctx c t = Some t"
  using assms
  by (cases c)
     (auto simp: call_matches_def setX_def setY_def setPos_def setWidth_def setHeight_def
        setSize_def setGeometry_def Let_def getX_def getY_def getPos_def getWidth_def
        getHeight_def simp del: adjustSize.simps)

lemma adjustSize_fresh_example:
  "adjustSize ctx80 (Widget fresh_child []) = Some (Widget fresh_child_laid_out [])"
  by (simp add: getWidth_def getHeight_def getTermX_def getTermY_def rect_getWidth_def
        rect_getHeight_def rect_setWidth_def rect_setHeight_def setCoordinates_def
        insufficientSpaceAdjust_def keep_min_width_def keep_min_height_def
        move_left_loop.simps move_up_loop.simps reduce_width_loop.simps
        reduce_height_loop.simps adjustSize.simps adjustChildren.simps adjust_offset_def
        set_client_offset_def child_ctx_def parent80_def ctx80_def no_padding_def
        default_hints_def child10x5_def fresh_child_def fresh_child_laid_out_def Let_def)

theorem setter_noop_witness:
  "call_matches (size_hints fresh_child) (SetPos (1, 1) True) (adjust_wsize fresh_child)
   \<and> call_matches (size_hints fresh_child) (SetPos (1, 1) True) (wsize fresh_child)
   \<and> call_setter ctx80 (SetPos (1, 1) True) (Widget fresh_child []) = Some (Widget fresh_child [])
   \<and> call_matches (size_hints fresh_child) (SetGeometry (1, 1) (1, 1) True)
         (adjust_wsize fresh_child)
   \<and> is_SetGeometry (SetGeometry (1, 1) (1, 1) True)
   \<and> call_setter ctx80 (SetGeometry (1, 1) (1, 1) True) (Widget fresh_child [])
     = Some (Widget fresh_child [])
   \<and> adjustSize ctx80 (Widget fresh_child []) = Some (Widget fresh_child_laid_out [])
   \<and> Widget fresh_child_laid_out [] \<noteq> Widget fresh_child []"
proof -
  have a: "call_matches (size_hints (node (Widget fresh_child []))) (SetPos (1, 1) True)
             (adjust_wsize (node (Widget fresh_child [])))"
    and b: "call_matches (size_hints (node (Widget fresh_child []))) (SetPos (1, 1) True)
             (wsize (node (Widget fresh_child [])))"
    and c: "call_matches (size_hints (node (Widget fresh_child [])))
             (SetGeometry (1, 1) (1, 1) True) (adjust_wsize (node (Widget fresh_child [])))"
    and d: "is_SetGeometry (SetGeometry (1, 1) (1, 1) True)"
    and e: "Widget fresh_child_laid_out [] \<noteq> Widget fresh_child []"
    by (simp_all add: fresh_child_def fresh_child_laid_out_def child10x5_def default_hints_def
          call_matches_def rect_getWidth_def rect_getHeight_def setCoordinates_def)
  from b have b': "is_SetGeometry (SetPos (1, 1) True)
      \<or> call_matches (size_hints (node (Widget fresh_child []))) (SetPos (1, 1) True)
           (wsize (node (Widget fresh_child [])))"
    by simp
  from d have d': "is_SetGeometry (SetGeometry (1, 1) (1, 1) True)
      \<or> call_matches (size_hints (node (Widget fresh_child [])))
           (SetGeometry (1, 1) (1, 1) True) (wsize (node (Widget fresh_child [])))"
    by simp
  from setter_noop [OF a b', of ctx80] setter_noop [OF c d', of ctx80]
    a b c d e adjustSize_fresh_example
  show ?thesis by simp
qed

lemma setPos_clamped_example:
  "call_setter ctx80 (SetPos (0, 0) True) (Widget fresh_child [])
     = Some (Widget fresh_child_laid_out [])"
  by (simp add: setPos_def store_pos_def rect_setX_def rect_setY_def rect_setPos_def getX_def
        getY_def getPos_def getWidth_def getHeight_def getTermX_def getTermY_def
        rect_getWidth_def rect_getHeight_def rect_setWidth_def rect_setHeight_def
        setCoordinates_def insufficientSpaceAdjust_def keep_min_width_def
        keep_min_height_def move_left_loop.simps move_up_loop.simps reduce_width_loop.simps
        reduce_height_loop.simps adjustSize.simps adjustChildren.simps adjust_offset_def
        set_client_offset_def child_ctx_def parent80_def ctx80_def no_padding_def
        default_hints_def child10x5_def fresh_child_def fresh_child_laid_out_def Let_def)

text \<open>
  Claim C8 as stated fails: \<^verbatim>\<open>setPos\<close> with (0, 0) and adjustment on a widget at (1, 1)
  stores the position (1, 1) the widget already has, and then runs the layout pass, which
  writes the client offset.
\<close>

theorem setter_noop_counterexample:
  "store_pos (0, 0) fresh_child = fresh_child
   \<and> call_setter ctx80 (SetPos (0, 0) True) (Widget fresh_child [])
     = Some (Widget fresh_child_laid_out [])
   \<and> Widget fresh_child_laid_out [] \<noteq> Widget fresh_child []"
proof -
  have "store_pos (0, 0) fresh_child = fresh_child"
    "Widget fresh_child_laid_out [] \<noteq> Widget fresh_child []"
    by (simp_all add: fresh_child_def fresh_child_laid_out_def child10x5_def store_pos_def
          rect_setPos_def setCoordinates_def Let_def)
  with setPos_clamped_example show ?thesis by simp
qed

subsection \<open>The double-line masks\<close>

lemma length_vec_resize: "length (vec_resize n v xs) = n"
  by (simp add: vec_resize_def)

lemma mask_ok_resize_masks: "mask_ok (resize_masks w)"
  by (simp add: mask_ok_def mask_width_ok_def mask_height_ok_def resize_masks_sizes)
     (simp add: resize_masks_def length_vec_resize)

lemma mask_width_ok_resize: "mask_width_ok (resize_masks_width w)"
  by (simp add: mask_width_ok_def resize_masks_sizes)
     (simp add: resize_masks_width_def length_vec_resize)

lemma mask_height_ok_resize: "mask_height_ok (resize_masks_height w)"
  by (simp add: mask_height_ok_def resize_masks_sizes)
     (simp add: resize_masks_height_def length_vec_resize)

lemma mask_height_resize_width:
  "mask_height_ok (resize_masks_width w) = mask_height_ok w"
  by (simp add: mask_height_ok_def resize_masks_sizes) (simp add: resize_masks_width_def)

lemma mask_width_resize_height:
  "mask_width_ok (resize_masks_height w) = mask_width_ok w"
  by (simp add: mask_width_ok_def resize_masks_sizes) (simp add: resize_masks_height_def)

lemma store_masks:
  "double_flatline_mask (store_x x w) = double_flatline_mask w"
  "double_flatline_mask (store_y y w) = double_flatline_mask w"
  "double_flatline_mask (store_pos p w) = double_flatline_mask w"
  "double_flatline_mask (store_width n w) = double_flatline_mask w"
  "double_flatline_mask (store_height n w) = double_flatline_mask w"
  "double_flatline_mask (store_size n m w) = double_flatline_mask w"
  by (simp_all add: store_x_def store_y_def store_pos_def store_width_def store_height_def
        store_size_def Let_def)

lemma mask_ok_sizes:
  assumes "getWidth w' = getWidth w" and "getHeight w' = getHeight w"
    and "double_flatline_mask w' = double_flatline_mask w"
  shows "mask_ok w' = mask_ok w"
  using assms by (simp add: mask_ok_def mask_width_ok_def mask_height_ok_def)

lemma mask_ok_store_move:
  "mask_ok (store_x x w) = mask_ok w" "mask_ok (store_y y w) = mask_ok w"
  "mask_ok (store_pos p w) = mask_ok w"
  by (rule mask_ok_sizes; simp add: store_sizes store_masks)+

lemma mask_ok_store_width:
  assumes "mask_ok w"
  shows "mask_ok (resize_masks_width (store_width n w))"
proof -
  have "mask_height_ok (store_width n w)"
    using assms by (simp add: mask_ok_def mask_height_ok_def store_sizes store_masks)
  then show ?thesis
    by (simp add: mask_ok_def mask_width_ok_resize mask_height_resize_width)
qed

lemma mask_ok_store_height:
  assumes "mask_ok w"
  shows "mask_ok (resize_masks_height (store_height n w))"
proof -
  have "mask_width_ok (store_height n w)"
    using assms by (simp add: mask_ok_def mask_width_ok_def store_sizes store_masks)
  then show ?thesis
    by (simp add: mask_ok_def mask_height_ok_resize mask_width_resize_height)
qed

lemma mask_ok_store_geometry: "mask_ok (store_geometry p n m w)"
  by (simp add: store_geometry_def Let_def mask_ok_resize_masks)

lemma setter_mask_ok:
  assumes "mask_ok (node t)" and "call_setter ctx c t = Some t'"
    and "\<not> adjust_flag c \<or> is_SetSize c"
  shows "mask_ok (node t')"
proof (cases c)
  case (SetX x adjust)
  with assms show ?thesis
    by (auto simp: setX_def Let_def mask_ok_store_move
          simp del: adjustSize.simps split: if_splits)
next
  case (SetY y adjust)
  with assms show ?thesis
    by (auto simp: setY_def Let_def mask_ok_store_move
          simp del: adjustSize.simps split: if_splits)
next
  case (SetPos p adjust)
  with assms show ?thesis
    by (auto simp: setPos_def Let_def mask_ok_store_move
          simp del: adjustSize.simps split: if_splits)
next
  case (SetWidth n adjust)
  with assms show ?thesis
    by (auto simp: setWidth_def Let_def mask_ok_store_width
          simp del: adjustSize.simps split: if_splits)
next
  case (SetHeight n adjust)
  with assms show ?thesis
    by (auto simp: setHeight_def Let_def mask_ok_store_height
          simp del: adjustSize.simps split: if_splits)
next
  case (SetSize s adjust)
  with assms show ?thesis
    by (auto simp: setSize_def Let_def mask_ok_resize_masks simp del: adjustSize.simps
          split: if_splits option.splits)
next
  case (SetGeometry p s adjust)
  with assms show ?thesis
    by (auto simp: setGeometry_def Let_def mask_ok_store_geometry
          simp del: adjustSize.simps split: if_splits)
qed

lemma setWidth_mask_width_ok:
  assumes "mask_width_ok (node t)" and "setWidth ctx n adjust t = Some t'"
  shows "mask_width_ok (node t')"
  using assms
  by (auto simp: setWidth_def Let_def mask_width_ok_resize simp del: adjustSize.simps
        split: if_splits option.splits)

lemma setHeight_mask_height_ok:
  assumes "mask_height_ok (node t)" and "setHeight ctx n adjust t = Some t'"
  shows "mask_height_ok (node t')"
  using assms
  by (auto simp: setHeight_def Let_def mask_height_ok_resize simp del: adjustSize.simps
        split: if_splits option.splits)

lemma resize_mask_ok:
  assumes "resize ctx t = Some t'"
  shows "mask_ok (node t')"
  using assms
  by (auto simp: resize_def mask_ok_resize_masks simp del: adjustSize.simps
        split: option.splits)

text \<open>
  Claim C6 as amended. With top and bottom masks as long as the adjusted width and left
  and right masks as long as the adjusted height before the call, the same holds after
  any geometry setter called without adjustment and after \<^verbatim>\<open>setSize\<close> with either value
  of the flag; \<^verbatim>\<open>setWidth\<close> keeps the top and bottom masks as long as the adjusted width
  and \<^verbatim>\<open>setHeight\<close> the left and right masks as long as the adjusted height, with either
  value of the flag; \<^verbatim>\<open>resize\<close> on a widget that is not the root leaves all four masks
  with these lengths. (\<^verbatim>\<open>adjustSize\<close> itself does not resize the masks.)
\<close>

theorem mask_lengths_kept:
  "(mask_ok (node t) \<longrightarrow> call_setter ctx c t = Some t1 \<longrightarrow>
      (\<not> adjust_flag c \<or> is_SetSize c) \<longrightarrow> mask_ok (node t1))
   \<and> (mask_width_ok (node t) \<longrightarrow> setWidth ctx n adjust t = Some t2 \<longrightarrow>
        mask_width_ok (node t2))
   \<and> (mask_height_ok (node t) \<longrightarrow> setHeight ctx m adjust' t = Some t3 \<longrightarrow>
        mask_height_ok (node t3))
   \<and> (\<not> is_root ctx' \<longrightarrow> resize ctx' u = Some t4 \<longrightarrow> mask_ok (node t4))"
  using setter_mask_ok [of t ctx c t1] setWidth_mask_width_ok [of t ctx n adjust t2]
    setHeight_mask_height_ok [of t ctx m adjust' t3] resize_mask_ok [of ctx' u t4]
  by blast

lemma setSize_adjust_example:
  "call_setter ctx80 (SetSize (20, 8) True) (Widget child10x5 [])
     = Some (Widget child20x8_adjusted [])"
  by (simp add: setSize_def store_size_def resize_masks_def vec_resize_def getWidth_def
        getHeight_def getTermX_def getTermY_def rect_getWidth_def rect_getHeight_def
        rect_setWidth_def rect_setHeight_def setCoordinates_def insufficientSpaceAdjust_def
        keep_min_width_def keep_min_height_def move_left_loop.simps move_up_loop.simps
        reduce_width_loop.simps reduce_height_loop.simps adjustSize.simps
        adjustChildren.simps adjust_offset_def set_client_offset_def child_ctx_def
        parent80_def ctx80_def no_padding_def default_hints_def child10x5_def child20x8_def
        child20x8_adjusted_def replicate_add [symmetric] Let_def)

lemma setWidth_adjust_example:
  "setWidth ctx80 20 True (Widget child10x5 []) = Some (Widget child20x5_adjusted [])"
  by (simp add: setWidth_def store_width_def resize_masks_width_def vec_resize_def getWidth_def
        getHeight_def getTermX_def getTermY_def rect_getWidth_def rect_getHeight_def
        rect_setWidth_def rect_setHeight_def setCoordinates_def insufficientSpaceAdjust_def
        keep_min_width_def keep_min_height_def move_left_loop.simps move_up_loop.simps
        reduce_width_loop.simps reduce_height_loop.simps adjustSize.simps
        adjustChildren.simps adjust_offset_def set_client_offset_def child_ctx_def
        parent80_def ctx80_def no_padding_def default_hints_def child10x5_def
        child20x5_adjusted_def replicate_add [symmetric] Let_def)

lemma setHeight_adjust_example:
  "setHeight ctx80 8 True (Widget child10x5 []) = Some (Widget child10x8_adjusted [])"
  by (simp add: setHeight_def store_height_def resize_masks_height_def vec_resize_def getWidth_def
        getHeight_def getTermX_def getTermY_def rect_getWidth_def rect_getHeight_def
        rect_setWidth_def rect_setHeight_def setCoordinates_def insufficientSpaceAdjust_def
        keep_min_width_def keep_min_height_def move_left_loop.simps move_up_loop.simps
        reduce_width_loop.simps reduce_height_loop.simps adjustSize.simps
        adjustChildren.simps adjust_offset_def set_client_offset_def child_ctx_def
        parent80_def ctx80_def no_padding_def default_hints_def child10x5_def
        child10x8_adjusted_def replicate_add [symmetric] Let_def)

lemma adjustSize_wide_example:
  "adjustSize ctx80 (Widget wide_child []) = Some (Widget wide_child_adjusted [])"
  by (simp add: getWidth_def getHeight_def getTermX_def getTermY_def rect_getWidth_def
        rect_getHeight_def rect_setWidth_def rect_setHeight_def setCoordinates_def
        insufficientSpaceAdjust_def keep_min_width_def keep_min_height_def
        move_left_loop.simps move_up_loop.simps reduce_width_loop.simps
        reduce_height_loop.simps adjustSize.simps adjustChildren.simps adjust_offset_def
        set_client_offset_def child_ctx_def parent80_def ctx80_def no_padding_def
        default_hints_def child10x5_def wide_child_def wide_child_adjusted_def Let_def)

lemma resize_wide_example:
  "resize ctx80 (Widget wide_child []) = Some (Widget wide_child_resized [])"
  by (simp add: resize_def resize_masks_def vec_resize_def getWidth_def getHeight_def getTermX_def
        getTermY_def rect_getWidth_def rect_getHeight_def rect_setWidth_def
        rect_setHeight_def setCoordinates_def insufficientSpaceAdjust_def
        keep_min_width_def keep_min_height_def move_left_loop.simps move_up_loop.simps
        reduce_width_loop.simps reduce_height_loop.simps adjustSize.simps
        adjustChildren.simps adjust_offset_def set_client_offset_def child_ctx_def
        parent80_def ctx80_def no_padding_def default_hints_def child10x5_def
        wide_child_def wide_child_adjusted_def wide_child_resized_def Let_def)

theorem mask_lengths_kept_witness:
  "mask_ok child10x5
   \<and> call_setter ctx80 (SetSize (20, 8) True) (Widget child10x5 [])
     = Some (Widget child20x8_adjusted [])
   \<and> is_SetSize (SetSize (20, 8) True)
   \<and> mask_ok child20x8_adjusted
   \<and> mask_width_ok child10x5
   \<and> setWidth ctx80 20 True (Widget child10x5 []) = Some (Widget child20x5_adjusted [])
   \<and> mask_width_ok child20x5_adjusted
   \<and> mask_height_ok child10x5
   \<and> setHeight ctx80 8 True (Widget child10x5 []) = Some (Widget child10x8_adjusted [])
   \<and> mask_height_ok child10x8_adjusted
   \<and> \<not> is_root ctx80
   \<and> resize ctx80 (Widget wide_child []) = Some (Widget wide_child_resized [])
   \<and> mask_ok wide_child_resized
   \<and> getWidth wide_child_resized = 80"
proof -
  have h: "mask_ok child10x5" "is_SetSize (SetSize (20, 8) True)" "mask_width_ok child10x5"
    "mask_height_ok child10x5" "getWidth wide_child_resized = 80" "\<not> is_root ctx80"
    by (simp_all add: child10x5_def wide_child_def wide_child_adjusted_def
          wide_child_resized_def ctx80_def mask_ok_def mask_width_ok_def mask_height_ok_def
          getWidth_def getHeight_def rect_getWidth_def rect_getHeight_def setCoordinates_def)
  then have d: "\<not> adjust_flag (SetSize (20, 8) True) \<or> is_SetSize (SetSize (20, 8) True)"
    by simp
  from mask_lengths_kept [of "Widget child10x5 []" ctx80 "SetSize (20, 8) True"
      "Widget child20x8_adjusted []" 20 True "Widget child20x5_adjusted []" 8 True
      "Widget child10x8_adjusted []" ctx80 "Widget wide_child []" "Widget wide_child_resized []"]
    h d setSize_adjust_example setWidth_adjust_example setHeight_adjust_example
    resize_wide_example
  show ?thesis by simp
qed

text \<open>
  Claim C6 as stated fails: \<^verbatim>\<open>adjustSize\<close> on a widget of 100 columns in a parent of 80
  shrinks the adjusted width to 80 and leaves the top mask 100 cells long.
\<close>

theorem mask_lengths_kept_counterexample:
  "mask_ok wide_child
   \<and> adjustSize ctx80 (Widget wide_child []) = Some (Widget wide_child_adjusted [])
   \<and> getWidth wide_child_adjusted = 80
   \<and> length (mask_top (double_flatline_mask wide_child_adjusted)) = 100
   \<and> \<not> mask_ok wide_child_adjusted"
proof -
  have "mask_ok wide_child" "getWidth wide_child_adjusted = 80"
    "length (mask_top (double_flatline_mask wide_child_adjusted)) = 100"
    "\<not> mask_ok wide_child_adjusted"
    by (simp_all add: child10x5_def wide_child_def wide_child_adjusted_def mask_ok_def
          mask_width_ok_def mask_height_ok_def getWidth_def getHeight_def rect_getWidth_def
          rect_getHeight_def setCoordinates_def)
  with adjustSize_wide_example show ?thesis by simp
qed

subsection \<open>What the layout pass leaves alone\<close>










subsection \<open>The size setters and the size hints\<close>
















end
